theory Spec2Isabelle
  imports Main
begin

section \<open>Chem-to-SMILES: a shallow embedding of \<^verbatim>\<open>chem2smiles.py\<close>\<close>

text \<open>
  The program is a thin driver around three external collaborators: the RDKit parser
  (\<^verbatim>\<open>Chem.MolFromSmiles\<close>), the RDKit renderer (\<^verbatim>\<open>Draw.MolToImage\<close> and
  \<^verbatim>\<open>img.save\<close>) and the PubChem lookup (\<^verbatim>\<open>pubchempy.get_compounds\<close>, with
  \<^verbatim>\<open>pip\<close> as its installer). The collaborators are parameters of the model (the
  record \<open>env\<close>); the three functions of the source, \<^verbatim>\<open>name_to_smiles\<close>,
  \<^verbatim>\<open>save_molecule_image\<close> and \<^verbatim>\<open>main\<close>, are translated statement by statement,
  with every \<^verbatim>\<open>try\<close>/\<^verbatim>\<open>except\<close> as an explicit case distinction on a raised
  exception.
\<close>

subsection \<open>Exceptions\<close>

text \<open>
  The source distinguishes three classes of exceptions: \<^verbatim>\<open>ImportError\<close>,
  every other subclass of \<^verbatim>\<open>Exception\<close> (with the text \<^verbatim>\<open>str(e)\<close> that the
  diagnostics print), and \<^verbatim>\<open>KeyboardInterrupt\<close>, which is not a subclass of
  \<^verbatim>\<open>Exception\<close>.
\<close>

datatype exn = ImportError string | OtherException string | KeyboardInterrupt

fun is_ImportError :: "exn \<Rightarrow> bool" where
  "is_ImportError (ImportError m) = True"
| "is_ImportError (OtherException m) = False"
| "is_ImportError KeyboardInterrupt = False"

fun is_Exception :: "exn \<Rightarrow> bool" where
  "is_Exception (ImportError m) = True"
| "is_Exception (OtherException m) = True"
| "is_Exception KeyboardInterrupt = False"

fun is_KeyboardInterrupt :: "exn \<Rightarrow> bool" where
  "is_KeyboardInterrupt (ImportError m) = False"
| "is_KeyboardInterrupt (OtherException m) = False"
| "is_KeyboardInterrupt KeyboardInterrupt = True"

fun str_exn :: "exn \<Rightarrow> string" where
  "str_exn (ImportError m) = m"
| "str_exn (OtherException m) = m"
| "str_exn KeyboardInterrupt = []"

subsection \<open>Collaborators and program state\<close>

text \<open>A candidate of the lookup service; \<^verbatim>\<open>canonical_smiles\<close> may be \<^verbatim>\<open>None\<close>.\<close>

datatype compound = Compound (canonical_smiles: "string option")

text \<open>The calls the program makes to the outside, in the order it makes them.\<close>

datatype call =
    EvImport
  | EvGetCompounds string
  | EvPipInstall
  | EvMolToImage string nat nat
  | EvImgSave string
  | EvOpenWrite string

text \<open>
  \<open>MolFromSmiles\<close> answers \<open>Inr True\<close> for a molecule object, \<open>Inr False\<close> for
  \<^verbatim>\<open>None\<close> and \<open>Inl e\<close> when it raises; it is a function of the string alone.
  The import of \<^verbatim>\<open>pubchempy\<close>, the lookup and the installer depend on what
  happened before (the import works after a successful install): they read the list of
  calls made so far. \<open>MolToImage\<close> yields the image, here the bytes of its file, or
  raises; \<open>img_save\<close> and \<open>open_w\<close> say whether \<^verbatim>\<open>img.save(path)\<close> and
  \<^verbatim>\<open>open(path, 'w')\<close> raise.
\<close>

record env =
  MolFromSmiles :: "string \<Rightarrow> exn + bool"
  import_get_compounds :: "call list \<Rightarrow> exn option"
  get_compounds :: "call list \<Rightarrow> string \<Rightarrow> exn + compound list"
  check_call_pip :: "call list \<Rightarrow> exn option"
  MolToImage :: "string \<Rightarrow> nat \<times> nat \<Rightarrow> exn + string"
  img_save :: "string \<Rightarrow> exn option"
  open_w :: "string \<Rightarrow> exn option"

text \<open>
  The state: standard output (one entry per \<^verbatim>\<open>print\<close> call), the files (the
  batch file, the output file and the image file live in the same file system), and the
  calls made so far.
\<close>

record state =
  out :: "string list"
  fs :: "string \<rightharpoonup> string"
  calls :: "call list"

definition print :: "string \<Rightarrow> state \<Rightarrow> state" where
  "print s st = st\<lparr>out := out st @ [s]\<rparr>"

definition record_call :: "call \<Rightarrow> state \<Rightarrow> state" where
  "record_call c st = st\<lparr>calls := calls st @ [c]\<rparr>"

text \<open>Python's truthiness of a value that is \<^verbatim>\<open>None\<close> or a string.\<close>

fun truthy :: "string option \<Rightarrow> bool" where
  "truthy None = False"
| "truthy (Some s) = (s \<noteq> [])"

definition TAB :: char where "TAB = CHR 0x09"
definition NL :: char where "NL = CHR 0x0A"
definition APOS :: char where "APOS = CHR 0x27"

text \<open>The arrow of the human-readable lines, U+2192 in UTF-8, with its two blanks.\<close>

definition ARROW :: string where
  "ARROW = [CHR 0x20, CHR 0xE2, CHR 0x86, CHR 0x92, CHR 0x20]"

subsection \<open>The Resolver: \<^verbatim>\<open>name_to_smiles\<close>\<close>

text \<open>Lines 35--40: the body of the inner \<^verbatim>\<open>try\<close>.\<close>

definition first_lookup :: "env \<Rightarrow> string \<Rightarrow> state \<Rightarrow> (exn + string option) \<times> state" where
  "first_lookup E chemical_name st =
    (let st1 = record_call EvImport st in
     case import_get_compounds E (calls st) of
       Some e \<Rightarrow> (Inl e, st1)
     | None \<Rightarrow>
        (let st2 = record_call (EvGetCompounds chemical_name) st1 in
         case get_compounds E (calls st1) chemical_name of
           Inl e \<Rightarrow> (Inl e, st2)
         | Inr compounds \<Rightarrow>
            (case compounds of
               c # rest \<Rightarrow> (Inr (canonical_smiles c), st2)
             | [] \<Rightarrow>
                (Inr None,
                 print (''No compounds found for '' @ [APOS] @ chemical_name @ [APOS]
                        @ '' in PubChem'') st2))))"

text \<open>Lines 44--50: the body of the \<^verbatim>\<open>try\<close> inside the \<^verbatim>\<open>ImportError\<close> handler.\<close>

definition retry_lookup :: "env \<Rightarrow> string \<Rightarrow> state \<Rightarrow> (exn + string option) \<times> state" where
  "retry_lookup E chemical_name st =
    (let st1 = record_call EvPipInstall st in
     case check_call_pip E (calls st) of
       Some e \<Rightarrow> (Inl e, st1)
     | None \<Rightarrow>
        (let st2 = record_call EvImport st1 in
         case import_get_compounds E (calls st1) of
           Some e \<Rightarrow> (Inl e, st2)
         | None \<Rightarrow>
            (let st3 = record_call (EvGetCompounds chemical_name) st2 in
             case get_compounds E (calls st2) chemical_name of
               Inl e \<Rightarrow> (Inl e, st3)
             | Inr compounds \<Rightarrow>
                (case compounds of
                   c # rest \<Rightarrow> (Inr (canonical_smiles c), st3)
                 | [] \<Rightarrow> (Inr None, st3)))))"

text \<open>Lines 34--56: the inner \<^verbatim>\<open>try\<close> with its two handlers, then \<^verbatim>\<open>return None\<close>.\<close>

definition pubchem_lookup :: "env \<Rightarrow> string \<Rightarrow> state \<Rightarrow> (exn + string option) \<times> state" where
  "pubchem_lookup E chemical_name st =
    (case first_lookup E chemical_name st of
       (Inr r, st1) \<Rightarrow> (Inr r, st1)
     | (Inl e, st1) \<Rightarrow>
        if is_ImportError e then
          (let st2 = print ''PubChemPy not installed. Installing it with: pip install pubchempy'' st1 in
           case retry_lookup E chemical_name st2 of
             (Inr r, st3) \<Rightarrow> (Inr r, st3)
           | (Inl e', st3) \<Rightarrow>
              if is_Exception e' then
                (Inr None, print (''Failed to install or use PubChemPy: '' @ str_exn e') st3)
              else (Inl e', st3))
        else if is_Exception e then
          (Inr None, print (''PubChem lookup failed: '' @ str_exn e) st1)
        else (Inl e, st1))"

text \<open>Lines 27--59: the outer \<^verbatim>\<open>try\<close>.\<close>

definition name_to_smiles :: "env \<Rightarrow> string \<Rightarrow> state \<Rightarrow> (exn + string option) \<times> state" where
  "name_to_smiles E chemical_name st =
    (case (case MolFromSmiles E chemical_name of
             Inl e \<Rightarrow> (Inl e, st)
           | Inr mol \<Rightarrow>
              if mol then (Inr (Some chemical_name), st)
              else pubchem_lookup E chemical_name st) of
       (Inr r, st1) \<Rightarrow> (Inr r, st1)
     | (Inl e, st1) \<Rightarrow>
        if is_Exception e then
          (Inr None, print (''Error processing '' @ chemical_name @ '': '' @ str_exn e) st1)
        else (Inl e, st1))"

subsection \<open>The Renderer: \<^verbatim>\<open>save_molecule_image\<close>\<close>

definition save_molecule_image :: "env \<Rightarrow> string \<Rightarrow> string \<Rightarrow> state \<Rightarrow> (exn + unit) \<times> state" where
  "save_molecule_image E smiles output_file st =
    (case (case MolFromSmiles E smiles of
             Inl e \<Rightarrow> (Inl e, st)
           | Inr mol \<Rightarrow>
              if mol then
                (let st1 = record_call (EvMolToImage smiles 400 400) st in
                 case MolToImage E smiles (400, 400) of
                   Inl e \<Rightarrow> (Inl e, st1)
                 | Inr img \<Rightarrow>
                    (let st2 = record_call (EvImgSave output_file) st1 in
                     case img_save E output_file of
                       Some e \<Rightarrow> (Inl e, st2)
                     | None \<Rightarrow>
                        (Inr (),
                         print (''Molecular structure saved to '' @ output_file)
                           (st2\<lparr>fs := (fs st2)(output_file \<mapsto> img)\<rparr>))))
              else (Inr (), print ''Could not generate molecular structure image'' st)) of
       (Inr u, st1) \<Rightarrow> (Inr u, st1)
     | (Inl e, st1) \<Rightarrow>
        if is_Exception e then
          (Inr (), print (''Error generating image: '' @ str_exn e) st1)
        else (Inl e, st1))"

subsection \<open>Text files and lines\<close>

text \<open>
  \<^verbatim>\<open>line.strip()\<close> removes the white space at both ends; on ASCII text the white
  space of Python is the characters 9 to 13 and 28 to 32.
\<close>

definition is_space :: "char \<Rightarrow> bool" where
  "is_space c =
    (c \<in> set [CHR 0x09, CHR 0x0A, CHR 0x0B, CHR 0x0C, CHR 0x0D,
               CHR 0x1C, CHR 0x1D, CHR 0x1E, CHR 0x1F, CHR 0x20])"

definition strip :: "string \<Rightarrow> string" where
  "strip s = rev (dropWhile is_space (rev (dropWhile is_space s)))"

text \<open>
  The content of a text file is the text as Python reads it (line ends already
  translated to the newline character). Iterating over the file yields its lines, each
  with its newline; a last line without one is yielded as it is.
\<close>

fun lines_from :: "string \<Rightarrow> string \<Rightarrow> string list" where
  "lines_from cur [] = (if cur = [] then [] else [cur])"
| "lines_from cur (c # cs) =
     (if c = NL then (cur @ [c]) # lines_from [] cs else lines_from (cur @ [c]) cs)"

definition file_lines :: "string \<Rightarrow> string list" where
  "file_lines content = lines_from [] content"

text \<open>\<^verbatim>\<open>open(path, 'r')\<close>: a missing file raises (an \<^verbatim>\<open>OSError\<close>).\<close>

definition open_read :: "string \<Rightarrow> state \<Rightarrow> exn + string list" where
  "open_read path st =
    (case fs st path of
       None \<Rightarrow>
         Inl (OtherException (''[Errno 2] No such file or directory: '' @ [APOS] @ path @ [APOS]))
     | Some content \<Rightarrow> Inr (file_lines content))"

text \<open>
  \<^verbatim>\<open>open(path, 'w')\<close>: the collaborator \<open>open_w\<close> says whether it raises; when it
  does not, the file exists afterwards and is empty. \<^verbatim>\<open>f.write(s)\<close> appends.
\<close>

definition open_write :: "env \<Rightarrow> string \<Rightarrow> state \<Rightarrow> (exn + unit) \<times> state" where
  "open_write E path st =
    (let st1 = record_call (EvOpenWrite path) st in
     case open_w E path of
       Some e \<Rightarrow> (Inl e, st1)
     | None \<Rightarrow> (Inr (), st1\<lparr>fs := (fs st1)(path \<mapsto> [])\<rparr>))"

definition fs_write :: "string \<Rightarrow> string \<Rightarrow> state \<Rightarrow> state" where
  "fs_write path s st =
    st\<lparr>fs := (fs st)(path \<mapsto> (case fs st path of None \<Rightarrow> s | Some c \<Rightarrow> c @ s))\<rparr>"

subsection \<open>The CLI driver: \<^verbatim>\<open>main\<close>\<close>

text \<open>
  The parsed command line, \<^verbatim>\<open>args.input\<close>, \<^verbatim>\<open>args.output\<close>,
  \<^verbatim>\<open>args.image\<close> and \<^verbatim>\<open>args.batch\<close>; an option that is not given is
  \<^verbatim>\<open>None\<close>.
\<close>

record args =
  args_input :: "string option"
  args_output :: "string option"
  args_image :: "string option"
  args_batch :: bool

text \<open>Standard input: each read yields a line or raises.\<close>

type_synonym stdin = "(exn + string) list"

text \<open>The two line formats: lines 99/101 and 129/131, and lines 122/124.\<close>

definition human_line :: "string \<Rightarrow> string option \<Rightarrow> string" where
  "human_line name smiles =
    (if truthy smiles then name @ ARROW @ the smiles else ''Could not convert: '' @ name)"

definition file_record :: "string \<Rightarrow> string option \<Rightarrow> string" where
  "file_record name smiles =
    (if truthy smiles then name @ [TAB] @ the smiles @ [NL]
     else name @ [TAB] @ ''NOT_FOUND'' @ [NL])"

text \<open>Lines 93--101: the loop over standard input.\<close>

fun interactive_loop :: "env \<Rightarrow> stdin \<Rightarrow> state \<Rightarrow> (exn + unit) \<times> state" where
  "interactive_loop E [] st = (Inr (), st)"
| "interactive_loop E (Inl e # rest) st = (Inl e, st)"
| "interactive_loop E (Inr line # rest) st =
     (let name = strip line in
      if name = [] then interactive_loop E rest st
      else
        (case name_to_smiles E name st of
           (Inl e, st1) \<Rightarrow> (Inl e, st1)
         | (Inr smiles, st1) \<Rightarrow> interactive_loop E rest (print (human_line name smiles) st1)))"

text \<open>Lines 89--104: interactive mode; only \<^verbatim>\<open>KeyboardInterrupt\<close> is handled.\<close>

definition interactive_mode :: "env \<Rightarrow> stdin \<Rightarrow> state \<Rightarrow> (exn + unit) \<times> state" where
  "interactive_mode E stdin st =
    (case interactive_loop E stdin (print ''Enter chemical names (Ctrl+D or Ctrl+Z to exit):'' st) of
       (Inr u, st1) \<Rightarrow> (Inr u, st1)
     | (Inl e, st1) \<Rightarrow> if is_KeyboardInterrupt e then (Inr (), st1) else (Inl e, st1))"

text \<open>Lines 110--115: the loop over the lines of the batch file.\<close>

fun batch_loop ::
  "env \<Rightarrow> string list \<Rightarrow> (string \<times> string option) list \<Rightarrow> state
    \<Rightarrow> (exn + (string \<times> string option) list) \<times> state" where
  "batch_loop E [] results st = (Inr results, st)"
| "batch_loop E (line # rest) results st =
     (let name = strip line in
      if name = [] then batch_loop E rest results st
      else
        (case name_to_smiles E name st of
           (Inl e, st1) \<Rightarrow> (Inl e, st1)
         | (Inr smiles, st1) \<Rightarrow> batch_loop E rest (results @ [(name, smiles)]) st1))"

text \<open>Lines 108--115: open the batch file, resolve every line.\<close>

definition batch_collect ::
  "env \<Rightarrow> string \<Rightarrow> state \<Rightarrow> (exn + (string \<times> string option) list) \<times> state" where
  "batch_collect E path st =
    (case open_read path st of
       Inl e \<Rightarrow> (Inl e, st)
     | Inr ls \<Rightarrow> batch_loop E ls [] st)"

text \<open>Lines 118--131: write the results to the file or to standard output.\<close>

definition batch_output ::
  "env \<Rightarrow> string option \<Rightarrow> (string \<times> string option) list \<Rightarrow> state \<Rightarrow> (exn + unit) \<times> state" where
  "batch_output E outp results st =
    (if truthy outp then
       (case open_write E (the outp) st of
          (Inl e, st1) \<Rightarrow> (Inl e, st1)
        | (Inr u, st1) \<Rightarrow>
           (Inr (),
            print (''Results written to '' @ the outp)
              (fold (\<lambda>(name, smiles). fs_write (the outp) (file_record name smiles)) results st1)))
     else
       (Inr (), fold (\<lambda>(name, smiles). print (human_line name smiles)) results st))"

text \<open>Lines 106--133: batch mode, with its handler for every \<^verbatim>\<open>Exception\<close>.\<close>

definition batch_mode :: "env \<Rightarrow> string \<Rightarrow> string option \<Rightarrow> state \<Rightarrow> (exn + unit) \<times> state" where
  "batch_mode E path outp st =
    (case (case batch_collect E path st of
             (Inl e, st1) \<Rightarrow> (Inl e, st1)
           | (Inr results, st1) \<Rightarrow> batch_output E outp results st1) of
       (Inr u, st2) \<Rightarrow> (Inr u, st2)
     | (Inl e, st2) \<Rightarrow>
        if is_Exception e then (Inr (), print (''Error: '' @ str_exn e) st2)
        else (Inl e, st2))"

text \<open>Lines 138--143: the structure goes to the file or to standard output.\<close>

definition single_output :: "env \<Rightarrow> string option \<Rightarrow> string \<Rightarrow> state \<Rightarrow> (exn + unit) \<times> state" where
  "single_output E outp smiles st =
    (if truthy outp then
       (case open_write E (the outp) st of
          (Inl e, st1) \<Rightarrow> (Inl e, st1)
        | (Inr u, st1) \<Rightarrow>
           (Inr (),
            print (''SMILES written to '' @ the outp) (fs_write (the outp) (smiles @ [NL]) st1)))
     else (Inr (), print smiles st))"

text \<open>Lines 136--148: single mode; nothing here is inside a \<^verbatim>\<open>try\<close>.\<close>

definition single_mode ::
  "env \<Rightarrow> string \<Rightarrow> string option \<Rightarrow> string option \<Rightarrow> state \<Rightarrow> (exn + unit) \<times> state" where
  "single_mode E inp outp img st =
    (case name_to_smiles E inp st of
       (Inl e, st1) \<Rightarrow> (Inl e, st1)
     | (Inr smiles, st1) \<Rightarrow>
        if truthy smiles then
          (case single_output E outp (the smiles) st1 of
             (Inl e, st2) \<Rightarrow> (Inl e, st2)
           | (Inr u, st2) \<Rightarrow>
              if truthy img then save_molecule_image E (the smiles) (the img) st2
              else (Inr (), st2))
        else (Inr (), print (''Could not convert: '' @ inp) st1))"

text \<open>Lines 89, 106, 134: the choice of the mode.\<close>

definition main :: "env \<Rightarrow> args \<Rightarrow> stdin \<Rightarrow> state \<Rightarrow> (exn + unit) \<times> state" where
  "main E a stdin st =
    (if \<not> truthy (args_input a) then interactive_mode E stdin st
     else if args_batch a then batch_mode E (the (args_input a)) (args_output a) st
     else single_mode E (the (args_input a)) (args_output a) (args_image a) st)"

subsection \<open>Reference notions for the properties\<close>

text \<open>
  The Resolver applied to each query in turn, each result paired with its query; an
  exception that escapes the Resolver ends the sequence.
\<close>

fun resolve_each ::
  "env \<Rightarrow> string list \<Rightarrow> state \<Rightarrow> (exn + (string \<times> string option) list) \<times> state" where
  "resolve_each E [] st = (Inr [], st)"
| "resolve_each E (n # ns) st =
     (case name_to_smiles E n st of
        (Inl e, st1) \<Rightarrow> (Inl e, st1)
      | (Inr r, st1) \<Rightarrow>
         (case resolve_each E ns st1 of
            (Inl e, st2) \<Rightarrow> (Inl e, st2)
          | (Inr rs, st2) \<Rightarrow> (Inr ((n, r) # rs), st2)))"

text \<open>The queries of a batch file: its lines, stripped, without the blank ones.\<close>

definition queries :: "string \<Rightarrow> string list" where
  "queries content = filter (\<lambda>n. n \<noteq> []) (map strip (file_lines content))"

text \<open>The calls of the Resolver, the render calls, and the opening of an output file.\<close>

fun lookup_call :: "call \<Rightarrow> bool" where
  "lookup_call EvImport = True"
| "lookup_call (EvGetCompounds q) = True"
| "lookup_call EvPipInstall = True"
| "lookup_call (EvMolToImage s w h) = False"
| "lookup_call (EvImgSave p) = False"
| "lookup_call (EvOpenWrite p) = False"

fun render_call :: "call \<Rightarrow> bool" where
  "render_call (EvMolToImage s w h) = True"
| "render_call EvImport = False"
| "render_call (EvGetCompounds q) = False"
| "render_call EvPipInstall = False"
| "render_call (EvImgSave p) = False"
| "render_call (EvOpenWrite p) = False"

subsection \<open>Example environments\<close>

text \<open>
  A working installation: the parser accepts \<^verbatim>\<open>CCO\<close> and \<^verbatim>\<open>O\<close>, PubChem knows
  \<^verbatim>\<open>water\<close>, every file can be written.
\<close>

definition env_example :: env where
  "env_example =
    \<lparr> MolFromSmiles = (\<lambda>s. Inr (s = ''CCO'' \<or> s = ''O'')),
      import_get_compounds = (\<lambda>h. None),
      get_compounds = (\<lambda>h q. Inr (if q = ''water'' then [Compound (Some ''O'')] else [])),
      check_call_pip = (\<lambda>h. None),
      MolToImage = (\<lambda>s size. Inr (''PNG image of '' @ s)),
      img_save = (\<lambda>p. None),
      open_w = (\<lambda>p. None) \<rparr>"

text \<open>The same without \<^verbatim>\<open>pubchempy\<close>: the import works once \<^verbatim>\<open>pip\<close> has run.\<close>

definition env_fresh :: env where
  "env_fresh =
    env_example\<lparr> import_get_compounds :=
      (\<lambda>h. if EvPipInstall \<in> set h then None
           else Some (ImportError ''No module named pubchempy'')) \<rparr>"

text \<open>The same where no file can be opened for writing.\<close>

definition env_readonly :: env where
  "env_readonly =
    env_example\<lparr> open_w := (\<lambda>p. Some (OtherException ''[Errno 13] Permission denied'')) \<rparr>"



text \<open>A lookup that is interrupted from the keyboard during the query \<^verbatim>\<open>bogusname\<close>.\<close>

definition env_interrupted :: env where
  "env_interrupted =
    env_example\<lparr> get_compounds :=
      (\<lambda>h q. if q = ''bogusname'' then Inl KeyboardInterrupt
             else get_compounds env_example h q) \<rparr>"

definition st_empty :: state where
  "st_empty = \<lparr> out = [], fs = Map.empty, calls = [] \<rparr>"

text \<open>
  A batch file of three queries and a blank line, a batch file with one query, and an
  output file left by an earlier run.
\<close>

definition st_batch :: state where
  "st_batch =
    \<lparr> out = [],
      fs = [''names.txt'' \<mapsto> ''water'' @ [NL] @ [NL] @ ''  bogusname  '' @ [NL] @ ''CCO'',
            ''x.txt'' \<mapsto> ''x'' @ [NL],
            ''out.txt'' \<mapsto> ''old content''],
      calls = [] \<rparr>"

section \<open>Properties\<close>

subsection \<open>Frame lemmas: what the Resolver leaves alone\<close>

lemma first_lookup_frame:
  "first_lookup E s st = (r, st') \<Longrightarrow>
     fs st' = fs st \<and> (\<exists>cs. calls st' = calls st @ cs \<and> list_all lookup_call cs)
     \<and> (\<exists>os. out st' = out st @ os)"
  by (auto simp: first_lookup_def print_def record_call_def Let_def
      split: option.splits sum.splits list.splits)

lemma retry_lookup_frame:
  "retry_lookup E s st = (r, st') \<Longrightarrow>
     fs st' = fs st \<and> (\<exists>cs. calls st' = calls st @ cs \<and> list_all lookup_call cs)
     \<and> (\<exists>os. out st' = out st @ os)"
  by (auto simp: retry_lookup_def print_def record_call_def Let_def
      split: option.splits sum.splits list.splits)

lemma pubchem_lookup_frame:
  assumes "pubchem_lookup E s st = (r, st')"
  shows "fs st' = fs st \<and> (\<exists>cs. calls st' = calls st @ cs \<and> list_all lookup_call cs)
     \<and> (\<exists>os. out st' = out st @ os)"
proof -
  let ?notice = "''PubChemPy not installed. Installing it with: pip install pubchempy''"
  obtain r1 st1 where f: "first_lookup E s st = (r1, st1)"
    by (cases "first_lookup E s st")
  obtain r2 st2 where g: "retry_lookup E s (print ?notice st1) = (r2, st2)"
    by (cases "retry_lookup E s (print ?notice st1)")
  show ?thesis
    using assms f g first_lookup_frame[OF f] retry_lookup_frame[OF g]
    by (auto simp: pubchem_lookup_def print_def Let_def split: sum.splits if_splits)
qed

lemma name_to_smiles_frame:
  assumes "name_to_smiles E s st = (r, st')"
  shows "fs st' = fs st \<and> (\<exists>cs. calls st' = calls st @ cs \<and> list_all lookup_call cs)
     \<and> (\<exists>os. out st' = out st @ os)"
proof -
  obtain r1 st1 where f: "pubchem_lookup E s st = (r1, st1)"
    by (cases "pubchem_lookup E s st")
  show ?thesis
    using assms f pubchem_lookup_frame[OF f]
    by (auto simp: name_to_smiles_def print_def Let_def split: sum.splits if_splits)
qed


lemma lookup_calls_no_render: "list_all lookup_call cs \<Longrightarrow> filter render_call cs = []"
proof (induction cs)
  case Nil
  then show ?case by simp
next
  case (Cons c cs)
  then show ?case by (cases c) simp_all
qed

subsection \<open>The Resolver\<close>

text \<open>
  Claim C2. A string that the validator accepts is returned as it is: the Resolver
  returns exactly its argument and leaves the state untouched, so nothing is printed
  and no call goes to the lookup service (no import, no query, no install).
\<close>

theorem name_to_smiles_valid_unchanged:
  "MolFromSmiles E s = Inr True \<Longrightarrow> name_to_smiles E s st = (Inr (Some s), st)"
  by (simp add: name_to_smiles_def)

theorem name_to_smiles_valid_unchanged_witness:
  "MolFromSmiles env_example ''CCO'' = Inr True
   \<and> name_to_smiles env_example ''CCO'' st_empty = (Inr (Some ''CCO''), st_empty)"
  using name_to_smiles_valid_unchanged [of env_example "''CCO''" st_empty]
  by (simp add: env_example_def)

text \<open>
  The first lookup path: when the validator rejects the string, the import works and
  the service has no candidate, the Resolver prints that nothing was found and
  returns \<^verbatim>\<open>None\<close>.
\<close>

lemma name_to_smiles_not_found:
  assumes "MolFromSmiles E s = Inr False"
    and "import_get_compounds E (calls st) = None"
    and "get_compounds E (calls st @ [EvImport]) s = Inr []"
  shows "name_to_smiles E s st =
     (Inr None,
      print (''No compounds found for '' @ [APOS] @ s @ [APOS] @ '' in PubChem'')
        (record_call (EvGetCompounds s) (record_call EvImport st)))"
  using assms
  by (simp add: name_to_smiles_def pubchem_lookup_def first_lookup_def record_call_def Let_def)

text \<open>
  Claim C4, on the retry path. With \<^verbatim>\<open>pubchempy\<close> missing at first and installed by
  \<^verbatim>\<open>pip\<close>, the validator rejects \<^verbatim>\<open>bogusname\<close> and the lookup after the
  install returns no candidate. The Resolver returns \<^verbatim>\<open>None\<close>, and the only line it
  prints is the notice of the install: lines 49--50 have no \<^verbatim>\<open>else\<close> branch, so the
  line "No compounds found" of line 40 is not printed on this path.
\<close>

theorem name_to_smiles_retry_without_diagnostic:
  "MolFromSmiles env_fresh ''bogusname'' = Inr False
   \<and> get_compounds env_fresh [EvImport, EvPipInstall, EvImport] ''bogusname'' = Inr []
   \<and> name_to_smiles env_fresh ''bogusname'' st_empty =
       (Inr None,
        \<lparr> out = [''PubChemPy not installed. Installing it with: pip install pubchempy''],
          fs = Map.empty,
          calls = [EvImport, EvPipInstall, EvImport, EvGetCompounds ''bogusname''] \<rparr>)"
  by (simp add: name_to_smiles_def pubchem_lookup_def first_lookup_def retry_lookup_def
      record_call_def print_def Let_def env_fresh_def env_example_def st_empty_def)

text \<open>
  Claim C5. When the validator rejects the string and the import of the lookup
  dependency raises \<^verbatim>\<open>ImportError\<close>, the Resolver runs the installer exactly
  once; it repeats the import and then the query for the same string exactly once
  when the install and the import succeed, and not at all otherwise. As long as what
  the installer, the import and the query raise are instances of \<^verbatim>\<open>Exception\<close>,
  the Resolver returns normally: a failure of any of the three yields \<^verbatim>\<open>None\<close>
  after the diagnostic "Failed to install or use PubChemPy: ...", a retried query
  without candidate yields \<^verbatim>\<open>None\<close>, and one with candidates yields the structure
  of the first.
\<close>

theorem name_to_smiles_install_and_retry:
  assumes rejected: "MolFromSmiles E s = Inr False"
    and unavailable: "import_get_compounds E (calls st) = Some (ImportError m)"
    and h1: "h1 = calls st @ [EvImport]"
    and h2: "h2 = h1 @ [EvPipInstall]"
    and h3: "h3 = h2 @ [EvImport]"
    and pip_exc: "\<forall>e. check_call_pip E h1 = Some e \<longrightarrow> is_Exception e"
    and imp_exc: "\<forall>e. import_get_compounds E h2 = Some e \<longrightarrow> is_Exception e"
    and get_exc: "\<forall>e. get_compounds E h3 s = Inl e \<longrightarrow> is_Exception e"
    and notice: "notice = ''PubChemPy not installed. Installing it with: pip install pubchempy''"
  shows "\<exists>r st'.
      name_to_smiles E s st = (Inr r, st')
    \<and> calls st' = calls st @ EvImport # EvPipInstall #
         (if check_call_pip E h1 = None
          then EvImport # (if import_get_compounds E h2 = None then [EvGetCompounds s] else [])
          else [])
    \<and> count_list (drop (length (calls st)) (calls st')) EvPipInstall = 1
    \<and> (\<forall>q. count_list (drop (length (calls st)) (calls st')) (EvGetCompounds q) =
          (if q = s \<and> check_call_pip E h1 = None \<and> import_get_compounds E h2 = None
           then 1 else 0))
    \<and> (\<forall>e. check_call_pip E h1 = Some e
             \<or> check_call_pip E h1 = None \<and> import_get_compounds E h2 = Some e
             \<or> check_call_pip E h1 = None \<and> import_get_compounds E h2 = None
                \<and> get_compounds E h3 s = Inl e
          \<longrightarrow> r = None
             \<and> out st' = out st @ [notice, ''Failed to install or use PubChemPy: '' @ str_exn e])
    \<and> (check_call_pip E h1 = None \<and> import_get_compounds E h2 = None
          \<and> get_compounds E h3 s = Inr [] \<longrightarrow> r = None \<and> out st' = out st @ [notice])
    \<and> (\<forall>c rest. check_call_pip E h1 = None \<and> import_get_compounds E h2 = None
          \<and> get_compounds E h3 s = Inr (c # rest)
          \<longrightarrow> r = canonical_smiles c \<and> out st' = out st @ [notice])"
proof -
  have first: "first_lookup E s st = (Inl (ImportError m), record_call EvImport st)"
    using unavailable by (simp add: first_lookup_def Let_def)
  let ?st2 = "print notice (record_call EvImport st)"
  have c2: "calls ?st2 = calls st @ [EvImport]" by (simp add: print_def record_call_def)
  have o2: "out ?st2 = out st @ [notice]" by (simp add: print_def record_call_def)
  have outer: "name_to_smiles E s st =
      (case retry_lookup E s ?st2 of
         (Inr r, st3) \<Rightarrow> (Inr r, st3)
       | (Inl e', st3) \<Rightarrow>
           if is_Exception e' then
             (Inr None, print (''Failed to install or use PubChemPy: '' @ str_exn e') st3)
           else (Inl e', st3))"
    using rejected first
    by (auto simp: name_to_smiles_def pubchem_lookup_def Let_def notice
        split: prod.splits sum.splits)
  show ?thesis
  proof (cases "check_call_pip E (calls st @ [EvImport])")
    case (Some e)
    then have "is_Exception e" using pip_exc h1 by simp
    then show ?thesis
      using Some c2 o2 unfolding h1 h2 h3
      by (simp add: outer retry_lookup_def Let_def record_call_def print_def)
  next
    case pip: None
    show ?thesis
    proof (cases "import_get_compounds E (calls st @ [EvImport, EvPipInstall])")
      case (Some e)
      then have "is_Exception e" using imp_exc h1 h2 by simp
      then show ?thesis
        using Some pip c2 o2 unfolding h1 h2 h3
        by (simp add: outer retry_lookup_def Let_def record_call_def print_def)
    next
      case imp: None
      show ?thesis
      proof (cases "get_compounds E (calls st @ [EvImport, EvPipInstall, EvImport]) s")
        case (Inl e)
        then have "is_Exception e" using get_exc h1 h2 h3 by simp
        then show ?thesis
          using Inl pip imp c2 o2 unfolding h1 h2 h3
          by (simp add: outer retry_lookup_def Let_def record_call_def print_def)
      next
        case (Inr compounds)
        then show ?thesis
          using pip imp c2 o2 unfolding h1 h2 h3
          by (cases compounds)
             (simp_all add: outer retry_lookup_def Let_def record_call_def print_def)
      qed
    qed
  qed
qed

theorem name_to_smiles_install_and_retry_witness:
  "MolFromSmiles env_fresh ''water'' = Inr False
   \<and> import_get_compounds env_fresh (calls st_empty) =
       Some (ImportError ''No module named pubchempy'')
   \<and> name_to_smiles env_fresh ''water'' st_empty =
       (Inr (Some ''O''),
        \<lparr> out = [''PubChemPy not installed. Installing it with: pip install pubchempy''],
          fs = Map.empty,
          calls = [EvImport, EvPipInstall, EvImport, EvGetCompounds ''water''] \<rparr>)"
  using name_to_smiles_install_and_retry
    [where E = env_fresh and s = "''water''" and st = st_empty
       and m = "''No module named pubchempy''"
       and ?h1.0 = "[EvImport]" and ?h2.0 = "[EvImport, EvPipInstall]"
       and ?h3.0 = "[EvImport, EvPipInstall, EvImport]"
       and notice = "''PubChemPy not installed. Installing it with: pip install pubchempy''"]
  by (simp add: name_to_smiles_def pubchem_lookup_def first_lookup_def retry_lookup_def
      record_call_def print_def Let_def env_fresh_def env_example_def st_empty_def)

subsection \<open>The Renderer\<close>



subsection \<open>The driver: single mode and the choice of the mode\<close>

text \<open>
  Claim C3, at an output path that cannot be opened. In single mode the input
  \<^verbatim>\<open>CCO\<close> is valid notation, and \<^verbatim>\<open>open(args.output, 'w')\<close> of line 139 raises
  an \<^verbatim>\<open>OSError\<close>. Line 139 is inside no \<^verbatim>\<open>try\<close>: \<^verbatim>\<open>main\<close> ends with the
  exception, and no diagnostic line is printed.
\<close>

theorem main_single_unwritable_output_raises:
  "main env_readonly
     \<lparr> args_input = Some ''CCO'', args_output = Some ''out.txt'', args_image = None,
       args_batch = False \<rparr> [] st_empty =
   (Inl (OtherException ''[Errno 13] Permission denied''),
    \<lparr> out = [], fs = Map.empty, calls = [EvOpenWrite ''out.txt''] \<rparr>)"
  by (simp add: main_def single_mode_def single_output_def open_write_def name_to_smiles_def
      record_call_def Let_def env_readonly_def env_example_def st_empty_def)

text \<open>
  Claim C7, at the same kind of output path. In single mode with the valid input
  \<^verbatim>\<open>CCO\<close> and the image path \<^verbatim>\<open>mol.png\<close>, the exception of line 139 ends
  \<^verbatim>\<open>main\<close> before line 146 is reached: no render call is made.
\<close>

theorem main_single_unwritable_output_skips_render:
  "MolFromSmiles env_readonly ''CCO'' = Inr True
   \<and> fst (main env_readonly
        \<lparr> args_input = Some ''CCO'', args_output = Some ''out.txt'',
          args_image = Some ''mol.png'', args_batch = False \<rparr> [] st_empty) =
       Inl (OtherException ''[Errno 13] Permission denied'')
   \<and> filter render_call (calls (snd (main env_readonly
        \<lparr> args_input = Some ''CCO'', args_output = Some ''out.txt'',
          args_image = Some ''mol.png'', args_batch = False \<rparr> [] st_empty))) = []"
  by (simp add: main_def single_mode_def single_output_def open_write_def name_to_smiles_def
      record_call_def Let_def env_readonly_def env_example_def st_empty_def)



lemma single_mode_renders_once:
  assumes "MolFromSmiles E inp = Inr True" and "inp \<noteq> []" and "img \<noteq> []"
    and "outp = None \<or> outp = Some [] \<or> open_w E (the outp) = None"
  shows "filter render_call (calls (snd (single_mode E inp outp (Some img) st))) =
           filter render_call (calls st) @ [EvMolToImage inp 400 400]"
  using assms
  by (cases outp)
     (auto simp: single_mode_def single_output_def open_write_def save_molecule_image_def
        name_to_smiles_def record_call_def print_def fs_write_def Let_def
        split: option.splits sum.splits)

lemma no_render_without_image:
  assumes "\<not> truthy img"
  shows "filter render_call (calls (snd (single_mode E inp outp img st))) =
           filter render_call (calls st)"
proof -
  obtain r1 st1 where n: "name_to_smiles E inp st = (r1, st1)"
    by (cases "name_to_smiles E inp st")
  from name_to_smiles_frame[OF n] obtain cs where
    cs: "calls st1 = calls st @ cs" "list_all lookup_call cs" by blast
  have "filter render_call (calls st1) = filter render_call (calls st)"
    using cs lookup_calls_no_render by simp
  then show ?thesis
    using assms n
    by (auto simp: single_mode_def single_output_def open_write_def record_call_def print_def
        fs_write_def Let_def split: sum.splits option.splits)
qed

text \<open>
  Claim C9. The mode is chosen by the truthiness of the positional argument: with the
  empty string as with no argument at all, \<^verbatim>\<open>main\<close> is the interactive mode,
  whatever the other options are; batch mode and single mode run only on an input
  that is not empty.
\<close>

theorem main_empty_input_is_interactive:
  "main E (a\<lparr>args_input := Some []\<rparr>) stdin st = interactive_mode E stdin st
   \<and> main E (a\<lparr>args_input := None\<rparr>) stdin st = interactive_mode E stdin st
   \<and> main E a stdin st =
       (case args_input a of
          None \<Rightarrow> interactive_mode E stdin st
        | Some inp \<Rightarrow>
            if inp = [] then interactive_mode E stdin st
            else if args_batch a then batch_mode E inp (args_output a) st
            else single_mode E inp (args_output a) (args_image a) st)"
  by (simp add: main_def split: option.splits)

subsection \<open>The driver: batch mode and interactive mode\<close>

text \<open>The loop of batch mode is the Resolver applied to each query of the file in turn.\<close>

lemma batch_loop_resolve_each:
  "batch_loop E ls acc st =
     (case resolve_each E (filter (\<lambda>n. n \<noteq> []) (map strip ls)) st of
        (Inl e, st') \<Rightarrow> (Inl e, st')
      | (Inr rs, st') \<Rightarrow> (Inr (acc @ rs), st'))"
proof (induction ls arbitrary: acc st)
  case Nil
  then show ?case by simp
next
  case (Cons l ls)
  show ?case
  proof (cases "strip l = []")
    case True
    then show ?thesis using Cons.IH by simp
  next
    case False
    then show ?thesis
      by (simp add: Cons.IH Let_def split: prod.splits sum.splits)
  qed
qed

lemma batch_collect_resolve_each:
  "fs st path = Some content \<Longrightarrow> batch_collect E path st = resolve_each E (queries content) st"
  by (simp add: batch_collect_def open_read_def queries_def batch_loop_resolve_each
      split: prod.splits sum.splits)


lemma resolve_each_frame:
  "resolve_each E ns st = (r, st') \<Longrightarrow>
     fs st' = fs st \<and> (\<exists>cs. calls st' = calls st @ cs \<and> list_all lookup_call cs)"
proof (induction ns arbitrary: st r st')
  case Nil
  then show ?case by auto
next
  case (Cons n ns)
  obtain r1 st1 where a: "name_to_smiles E n st = (r1, st1)"
    by (cases "name_to_smiles E n st")
  obtain r2 st2 where b: "resolve_each E ns st1 = (r2, st2)"
    by (cases "resolve_each E ns st1")
  from name_to_smiles_frame[OF a] Cons.IH[OF b] Cons.prems a b
  show ?case
    by (auto split: sum.splits)
qed



lemma fold_fs_write_other:
  "out (fold (\<lambda>(name, smiles). fs_write p (file_record name smiles)) results st) = out st
   \<and> calls (fold (\<lambda>(name, smiles). fs_write p (file_record name smiles)) results st) = calls st"
  by (induction results arbitrary: st) (auto simp: fs_write_def)

lemma fold_print:
  "fold (\<lambda>(name, smiles). print (human_line name smiles)) results st =
     st\<lparr>out := out st @ map (\<lambda>(name, smiles). human_line name smiles) results\<rparr>"
  by (induction results arbitrary: st) (auto simp: print_def)


lemma batch_collect_frame:
  assumes "batch_collect E path st = (r, st1)"
  shows "fs st1 = fs st \<and> (\<exists>cs. calls st1 = calls st @ cs \<and> list_all lookup_call cs)"
proof (cases "fs st path")
  case None
  then show ?thesis using assms by (auto simp: batch_collect_def open_read_def)
next
  case (Some content)
  then show ?thesis
    using assms resolve_each_frame[of E "queries content" st r st1]
    by (simp add: batch_collect_resolve_each)
qed



lemma queries_names_txt:
  "queries (''water'' @ [NL] @ [NL] @ ''  bogusname  '' @ [NL] @ ''CCO'') =
     [''water'', ''bogusname'', ''CCO'']"
  by (simp add: queries_def file_lines_def strip_def is_space_def NL_def)

lemma queries_x_txt: "queries (''x'' @ [NL]) = [''x'']"
  by (simp add: queries_def file_lines_def strip_def is_space_def NL_def)








text \<open>
  Claim C10. In batch mode, when opening the input file or a step of the resolution
  loop raises, no file is opened for writing and every file is as it was, whatever the
  output option is. With an output path, when that phase ends normally, the opening of
  the output file is the one call that follows it: every call of the Resolver comes
  before.
\<close>

theorem batch_output_opened_after_resolution:
  assumes "args_batch a" and "args_input a = Some path" and "path \<noteq> []"
  shows "(\<forall>e st1. batch_collect E path st = (Inl e, st1) \<longrightarrow>
            fs (snd (main E a stdin st)) = fs st
          \<and> calls (snd (main E a stdin st)) = calls st1
          \<and> (\<exists>cs. calls st1 = calls st @ cs \<and> list_all lookup_call cs))
    \<and> (\<forall>results st1 p. batch_collect E path st = (Inr results, st1)
            \<and> args_output a = Some p \<and> p \<noteq> [] \<longrightarrow>
            calls (snd (main E a stdin st)) = calls st1 @ [EvOpenWrite p]
          \<and> fs st1 = fs st
          \<and> (\<exists>cs. calls st1 = calls st @ cs \<and> list_all lookup_call cs))"
proof -
  have m: "main E a stdin st = batch_mode E path (args_output a) st"
    using assms by (simp add: main_def)
  have err: "fs (snd (main E a stdin st)) = fs st
          \<and> calls (snd (main E a stdin st)) = calls st1
          \<and> (\<exists>cs. calls st1 = calls st @ cs \<and> list_all lookup_call cs)"
    if c: "batch_collect E path st = (Inl e, st1)" for e st1
    using batch_collect_frame[OF c] c
    by (simp add: m batch_mode_def print_def)
  have ok: "calls (snd (main E a stdin st)) = calls st1 @ [EvOpenWrite p]
          \<and> fs st1 = fs st
          \<and> (\<exists>cs. calls st1 = calls st @ cs \<and> list_all lookup_call cs)"
    if c: "batch_collect E path st = (Inr results, st1)"
      and o: "args_output a = Some p" "p \<noteq> []" for results st1 p
    using batch_collect_frame[OF c] c o
    by (auto simp: m batch_mode_def batch_output_def open_write_def record_call_def Let_def
        print_def fold_fs_write_other split: option.splits)
  show ?thesis using err ok by blast
qed

theorem batch_output_opened_after_resolution_witness:
  "fst (batch_collect env_interrupted ''names.txt'' st_batch) = Inl KeyboardInterrupt
   \<and> fs (snd (main env_interrupted
        \<lparr> args_input = Some ''names.txt'', args_output = Some ''out.txt'', args_image = None,
          args_batch = True \<rparr> [] st_batch)) = fs st_batch
   \<and> fs st_batch ''out.txt'' = Some ''old content''"
proof -
  let ?a = "\<lparr> args_input = Some ''names.txt'', args_output = Some ''out.txt'',
             args_image = None, args_batch = True \<rparr>"
  let ?st1 = "st_batch\<lparr>calls := [EvImport, EvGetCompounds ''water'', EvImport,
                                  EvGetCompounds ''bogusname'']\<rparr>"
  have f: "fs st_batch ''names.txt'' =
      Some (''water'' @ [NL] @ [NL] @ ''  bogusname  '' @ [NL] @ ''CCO'')"
    by (simp add: st_batch_def)
  have c: "batch_collect env_interrupted ''names.txt'' st_batch = (Inl KeyboardInterrupt, ?st1)"
    unfolding batch_collect_resolve_each [OF f] queries_names_txt
    by (simp add: name_to_smiles_def pubchem_lookup_def first_lookup_def record_call_def
      print_def Let_def env_interrupted_def env_example_def st_batch_def)
  from batch_output_opened_after_resolution [of ?a "''names.txt''" env_interrupted st_batch "[]"] c
  show ?thesis by (simp add: st_batch_def)
qed

text \<open>Batch mode and interactive mode request no rendering.\<close>

lemma interactive_loop_frame:
  "interactive_loop E stdin st = (r, st') \<Longrightarrow>
     fs st' = fs st \<and> (\<exists>cs. calls st' = calls st @ cs \<and> list_all lookup_call cs)"
proof (induction E stdin st arbitrary: r st' rule: interactive_loop.induct)
  case (1 E st)
  then show ?case by auto
next
  case (2 E e rest st)
  then show ?case by auto
next
  case (3 E line rest st)
  show ?case
  proof (cases "strip line = []")
    case True
    then show ?thesis using 3 by simp
  next
    case False
    obtain r1 st1 where n: "name_to_smiles E (strip line) st = (r1, st1)"
      by (cases "name_to_smiles E (strip line) st")
    note F = name_to_smiles_frame[OF n]
    show ?thesis
    proof (cases r1)
      case (Inl e)
      then show ?thesis using "3.prems" False n F by (auto simp: Let_def)
    next
      case (Inr smiles)
      have l: "interactive_loop E rest (print (human_line (strip line) smiles) st1) = (r, st')"
        using "3.prems" False n Inr by (simp add: Let_def)
      from "3.IH"(2)[OF refl False n[symmetric, unfolded Inr] refl l] F
      show ?thesis by (auto simp: print_def)
    qed
  qed
qed

lemma no_render_in_batch_mode:
  "filter render_call (calls (snd (batch_mode E path outp st))) = filter render_call (calls st)"
proof -
  obtain r1 st1 where c: "batch_collect E path st = (r1, st1)"
    by (cases "batch_collect E path st")
  from batch_collect_frame[OF c] obtain cs where
    cs: "calls st1 = calls st @ cs" "list_all lookup_call cs" by blast
  have "filter render_call (calls st1) = filter render_call (calls st)"
    using cs lookup_calls_no_render by simp
  then show ?thesis
    using c
    by (auto simp: batch_mode_def batch_output_def open_write_def record_call_def print_def
        fold_print fold_fs_write_other Let_def split: sum.splits option.splits)
qed

lemma no_render_in_interactive_mode:
  "filter render_call (calls (snd (interactive_mode E stdin st))) = filter render_call (calls st)"
proof -
  let ?st0 = "print ''Enter chemical names (Ctrl+D or Ctrl+Z to exit):'' st"
  obtain r1 st1 where c: "interactive_loop E stdin ?st0 = (r1, st1)"
    by (cases "interactive_loop E stdin ?st0")
  from interactive_loop_frame[OF c] obtain cs where
    cs: "calls st1 = calls ?st0 @ cs" "list_all lookup_call cs" by blast
  have "filter render_call (calls st1) = filter render_call (calls st)"
    using cs lookup_calls_no_render by (simp add: print_def)
  then show ?thesis
    using c by (auto simp: interactive_mode_def split: sum.splits)
qed

text \<open>
  Batch mode turns the failure to open the output file into a diagnostic line, and lets
  no instance of \<^verbatim>\<open>Exception\<close> out, whatever fails (the handler of line 132);
  interactive mode ends normally on a keyboard interrupt.
\<close>

lemma batch_unwritable_output_diagnostic:
  "main env_readonly
     \<lparr> args_input = Some ''x.txt'', args_output = Some ''out.txt'', args_image = None,
       args_batch = True \<rparr> [] st_batch =
   (Inr (),
    st_batch\<lparr> out := [''No compounds found for '' @ [APOS] @ ''x'' @ [APOS] @ '' in PubChem'',
                      ''Error: [Errno 13] Permission denied''],
              calls := [EvImport, EvGetCompounds ''x'', EvOpenWrite ''out.txt''] \<rparr>)"
proof -
  have f: "fs st_batch ''x.txt'' = Some (''x'' @ [NL])"
    by (simp add: st_batch_def)
  have c: "batch_collect env_readonly ''x.txt'' st_batch =
      (Inr [(''x'', None)],
       st_batch\<lparr> out := [''No compounds found for '' @ [APOS] @ ''x'' @ [APOS] @ '' in PubChem''],
                 calls := [EvImport, EvGetCompounds ''x''] \<rparr>)"
    unfolding batch_collect_resolve_each [OF f] queries_x_txt
    by (simp add: name_to_smiles_def pubchem_lookup_def first_lookup_def record_call_def
      print_def Let_def env_readonly_def env_example_def st_batch_def)
  show ?thesis
    by (simp add: main_def batch_mode_def c batch_output_def open_write_def record_call_def
        print_def Let_def)
       (simp add: env_readonly_def env_example_def print_def st_batch_def)
qed

lemma batch_mode_catches_Exception:
  "fst (batch_mode E path outp st) = Inl e \<Longrightarrow> \<not> is_Exception e"
  by (auto simp: batch_mode_def split: prod.splits sum.splits if_splits)

lemma interactive_mode_interrupt:
  "interactive_mode E (Inl KeyboardInterrupt # rest) st =
     (Inr (), print ''Enter chemical names (Ctrl+D or Ctrl+Z to exit):'' st)"
  by (simp add: interactive_mode_def)

end
